theory Spec2Isabelle
  imports Main "HOL-Library.Word"
begin

section \<open>Data model\<close>

text \<open>
  Go's \<open>int\<close> is a machine integer; it is modelled at the width of the 64-bit platforms,
  so \<open>+\<close> and \<open>-\<close> wrap around and \<open><\<close>, \<open>>\<close> are the signed comparisons \<open><s\<close>.
\<close>

type_synonym go_int = "64 word"

text \<open>
  \<open>common.TransferTxn\<close> and \<open>common.Block\<close> are declared outside the source files at
  hand; the fields below are the ones the code reads (\<open>txn.Sender\<close>, \<open>txn.Recvr\<close>,
  \<open>txn.Amount\<close>, \<open>block.Transactions\<close>). The source keeps pointers to transactions and
  blocks; the model keeps the values, that is, a transaction is not written to once it
  has been handed to the server, and no pointer is nil.
\<close>

record TransferTxn =
  Sender :: go_int
  Recvr :: go_int
  Amount :: go_int

record Block =
  Transactions :: "TransferTxn list"

datatype conn = Conn nat

record redis_options =
  Addr :: string
  Password :: string
  DB :: go_int

text \<open>
  The struct \<open>Server\<close> of server.go. \<open>getBalance\<close> ranges over \<open>server.Blockchain\<close>
  and \<open>execLocalTxn\<close> appends to \<open>server.Log\<close>, so both are sequences.
  The field \<open>Id\<close> is named \<open>Id_server\<close> here.
\<close>

record Server =
  Id_server :: go_int
  Blockchain :: "Block list"
  Port :: go_int
  SeqNum :: go_int
  Status :: string
  AlreadyPromised :: bool
  ServerConn :: "go_int \<rightharpoonup> conn"
  Peers :: "go_int list"
  AssociatedClient :: go_int
  RedisConn :: redis_options
  Log :: "TransferTxn list"

subsection \<open>Constants of config.go\<close>

definition FaultsAllowed :: go_int where
  "FaultsAllowed = 1"

definition LEADER :: string where
  "LEADER = ''leader''"

definition FOLLOWER :: string where
  "FOLLOWER = ''follower''"

definition ServerPortMap :: "go_int \<rightharpoonup> go_int" where
  "ServerPortMap = [1 \<mapsto> 8001, 2 \<mapsto> 8002, 3 \<mapsto> 8003]"

text \<open>Indexing a Go map at a missing key gives the zero value.\<close>

definition ServerPortMap_at :: "go_int \<Rightarrow> go_int" where
  "ServerPortMap_at k = (case ServerPortMap k of None \<Rightarrow> 0 | Some p \<Rightarrow> p)"

subsection \<open>Messages and effects\<close>

text \<open>
  Modelled from the spec: the declarations of \<open>common.Message\<close>,
  \<open>common.PrepareMessage\<close>, \<open>common.ClientResponse\<close>, of the message type tags and of
  \<open>common.REDIS_LOG_KEY\<close> are not among the source files. The tags are the five the
  handler switches on (any other tag is \<open>OTHER_MESSAGE\<close>); a Prepare message carries
  \<open>ballotSeq\<close> and \<open>proposerId\<close>; the key of the durability store is made from the
  node id.
\<close>

datatype message_type =
    TRANSACTION_MESSAGE
  | PREPARE_MESSAGE
  | SHOW_BALANCE
  | SHOW_LOG_MESSAGE
  | SHOW_BLOCKCHAIN_MESSAGE
  | OTHER_MESSAGE string

record PrepareMessage =
  ballotSeq :: go_int
  proposerId :: go_int

record Message =
  Type :: message_type
  TxnMessage :: TransferTxn
  PrepareMsg :: PrepareMessage

record ClientResponse =
  MessageType :: message_type
  Balance :: go_int
  ClientId :: go_int

datatype redis_key = REDIS_LOG_KEY go_int

text \<open>
  What a handler does besides changing the node: the log entries it emits (level and
  message), the write to the durability store, the bytes written to a connection and the
  text printed. A handler returns the node and the list of these, in order.
\<close>

datatype log_level = DebugLevel | InfoLevel | ErrorLevel | PanicLevel

datatype effect =
    LogEntry log_level string
  | RedisSet redis_key "TransferTxn list"
  | ConnWrite conn string
  | PrettyPrint string

text \<open>
  Functions that the source calls and that are defined outside the source files at hand
  are parameters: the consensus round \<open>execPaxosRun\<close>, \<open>json.Marshal\<close> on a client
  response (\<open>Inl\<close> is its error) and the two printers of package \<open>utils\<close>.
\<close>

record extern =
  execPaxosRun :: "Server \<Rightarrow> TransferTxn \<Rightarrow> Server \<times> effect list"
  jsonMarshal :: "ClientResponse \<Rightarrow> string + string"
  GetLocalLogPrint :: "TransferTxn list \<Rightarrow> string"
  GetBlockchainPrint :: "Block list \<Rightarrow> string"

section \<open>The server\<close>

subsection \<open>InitServer\<close>

definition InitServer :: "go_int \<Rightarrow> Server" where
  "InitServer id' =
     (let server = \<lparr>
            Id_server = id',
            Blockchain = [],
            Port = ServerPortMap_at id',
            SeqNum = 1,
            Status = FOLLOWER,
            AlreadyPromised = False,
            ServerConn = Map.empty,
            Peers = [],
            AssociatedClient = id',
            RedisConn = \<lparr>Addr = ''localhost:6379'', Password = '''', DB = 0\<rparr>,
            Log = []\<rparr>
      in if id' = 1 then server\<lparr>Peers := Peers server @ [2, 3]\<rparr>
         else if id' = 2 then server\<lparr>Peers := Peers server @ [1, 3]\<rparr>
         else if id' = 3 then server\<lparr>Peers := Peers server @ [1, 2]\<rparr>
         else server)"

subsection \<open>Balances\<close>

definition getBalance :: "Server \<Rightarrow> go_int" where
  "getBalance server =
     fold (\<lambda>block balance.
        fold (\<lambda>txn balance.
           let balance = (if Recvr txn = AssociatedClient server
                          then balance + Amount txn else balance)
           in if Sender txn = AssociatedClient server
              then balance - Amount txn else balance)
          (Transactions block) balance)
       (Blockchain server) 100"

definition getLocalBalance :: "Server \<Rightarrow> go_int" where
  "getLocalBalance server =
     fold (\<lambda>txn balance.
        let balance = (if Recvr txn = AssociatedClient server
                       then balance + Amount txn else balance)
        in if Sender txn = AssociatedClient server
           then balance - Amount txn else balance)
       (Log server) (getBalance server)"

subsection \<open>Admission\<close>

definition checkIfTxnPossible :: "Server \<Rightarrow> TransferTxn \<Rightarrow> bool \<times> effect list" where
  "checkIfTxnPossible server txn =
     (let out = [LogEntry InfoLevel ''checking if transaction is possible''];
          balance = getLocalBalance server;
          out = out @ [LogEntry InfoLevel ''checking possibility......'']
      in if balance <s 0 then (False, out)
         else if Amount txn <s balance then (False, out)
         else (True, out))"

definition execLocalTxn :: "Server \<Rightarrow> TransferTxn \<Rightarrow> Server \<times> effect list" where
  "execLocalTxn server txn =
     (let server = server\<lparr>Log := Log server @ [txn]\<rparr>
      in (server, [RedisSet (REDIS_LOG_KEY (Id_server server)) (Log server)]))"

definition processTxnRequest ::
  "extern \<Rightarrow> Server \<Rightarrow> conn \<Rightarrow> TransferTxn \<Rightarrow> Server \<times> effect list" where
  "processTxnRequest ext server c transferRequest =
     (let (runPaxos, out) = checkIfTxnPossible server transferRequest
      in if \<not> runPaxos
         then (let (server, out') = execLocalTxn server transferRequest
               in (server, out @ out'))
         else (let (server, out') = execPaxosRun ext server transferRequest
               in (server, out @ out')))"

subsection \<open>The other handlers\<close>

definition processBalanceRequest ::
  "extern \<Rightarrow> Server \<Rightarrow> conn \<Rightarrow> Server \<times> effect list" where
  "processBalanceRequest ext server c =
     (let balance = getLocalBalance server;
          resp = \<lparr>MessageType = SHOW_BALANCE, Balance = balance,
                  ClientId = Id_server server\<rparr>
      in case jsonMarshal ext resp of
           Inl err \<Rightarrow>
             (server, [LogEntry ErrorLevel ''error marshalling the balance response'',
                       ConnWrite c []])
         | Inr jResp \<Rightarrow> (server, [ConnWrite c jResp]))"

text \<open>The body of \<open>processElectionRequest\<close> is empty.\<close>

definition processElectionRequest ::
  "Server \<Rightarrow> conn \<Rightarrow> PrepareMessage \<Rightarrow> Server \<times> effect list" where
  "processElectionRequest server c electionRequest = (server, [])"

text \<open>
  \<open>handleIncomingConnections\<close> loops for ever over \<open>d.Decode(&request)\<close>; the loop
  has no exit of its own. \<open>handleIncomingConnections_pass\<close> is one pass through the
  body of the loop, given what this call of \<open>Decode\<close> returned: an error, or the message
  that \<open>request\<close> holds after it. On an error the body is \<open>continue\<close>; otherwise the
  debug entry is logged and the message is dispatched on its tag (\<open>dispatch\<close> is the rest
  of the body).
\<close>

datatype decoded = DecodeError | Decoded Message

definition dispatch :: "extern \<Rightarrow> Server \<Rightarrow> conn \<Rightarrow> Message \<Rightarrow> Server \<times> effect list" where
  "dispatch ext server c request =
     (let out = [LogEntry DebugLevel ''Request received from a client''];
          (server, out') =
            (case Type request of
               TRANSACTION_MESSAGE \<Rightarrow> processTxnRequest ext server c (TxnMessage request)
             | PREPARE_MESSAGE \<Rightarrow> processElectionRequest server c (PrepareMsg request)
             | SHOW_BALANCE \<Rightarrow> processBalanceRequest ext server c
             | SHOW_LOG_MESSAGE \<Rightarrow>
                 (server, [PrettyPrint (GetLocalLogPrint ext (Log server))])
             | SHOW_BLOCKCHAIN_MESSAGE \<Rightarrow> (server, [])
             | OTHER_MESSAGE t \<Rightarrow> (server, []))
      in (server, out @ out'))"

definition handleIncomingConnections_pass ::
  "extern \<Rightarrow> Server \<Rightarrow> conn \<Rightarrow> decoded \<Rightarrow> Server \<times> effect list" where
  "handleIncomingConnections_pass ext server c d =
     (case d of
        DecodeError \<Rightarrow> (server, [])
      | Decoded request \<Rightarrow> dispatch ext server c request)"

text \<open>
  Collaborators for closed examples: a consensus round that leaves the node as it is,
  a marshaller that returns no bytes, printers that print nothing.
\<close>

definition idle_extern :: extern where
  "idle_extern = \<lparr>
     execPaxosRun = (\<lambda>server txn. (server, [])),
     jsonMarshal = (\<lambda>resp. Inr []),
     GetLocalLogPrint = (\<lambda>l. []),
     GetBlockchainPrint = (\<lambda>b. [])\<rparr>"

section \<open>The balance as the spec words it\<close>

text \<open>
  The spec's balance: 100, plus the amounts of the transactions whose receiver is the
  associated client, minus the amounts of those whose sender is, over the committed
  blocks first and the Local Log after them. \<open>spec_localBalance\<close> computes it in the
  machine's integers, \<open>total_received\<close> and \<open>total_sent\<close> are the sums over the
  mathematical integers.
\<close>

definition ledger_txns :: "Server \<Rightarrow> TransferTxn list" where
  "ledger_txns server = concat (map Transactions (Blockchain server)) @ Log server"

definition received_by :: "go_int \<Rightarrow> TransferTxn list \<Rightarrow> TransferTxn list" where
  "received_by client txns = filter (\<lambda>txn. Recvr txn = client) txns"

definition sent_by :: "go_int \<Rightarrow> TransferTxn list \<Rightarrow> TransferTxn list" where
  "sent_by client txns = filter (\<lambda>txn. Sender txn = client) txns"

definition spec_localBalance :: "Server \<Rightarrow> go_int" where
  "spec_localBalance server =
     100 + sum_list (map Amount (received_by (AssociatedClient server) (ledger_txns server)))
         - sum_list (map Amount (sent_by (AssociatedClient server) (ledger_txns server)))"

definition total_received :: "go_int \<Rightarrow> TransferTxn list \<Rightarrow> int" where
  "total_received client txns = sum_list (map (\<lambda>txn. sint (Amount txn)) (received_by client txns))"

definition total_sent :: "go_int \<Rightarrow> TransferTxn list \<Rightarrow> int" where
  "total_sent client txns = sum_list (map (\<lambda>txn. sint (Amount txn)) (sent_by client txns))"

section \<open>The consensus round as the spec words it\<close>

text \<open>
  Modelled from the spec: the consensus round behind \<open>execPaxosRun\<close> (the Prepare and
  Promise phases, the quorum) is missing from the source files; only its caller
  \<open>processTxnRequest\<close> and the constant \<open>FaultsAllowed\<close> are there. After the spec: there
  are three nodes; the quorum is \<open>\<lceil>(N + 1) / 2\<rceil>\<close>; the proposer sends Prepare to every
  peer and counts itself as promised at once; it waits for the Promises of its peers and
  goes on to the Accept phase on quorum; a timeout or a rejection fails the round. What
  follows the entry into the Accept phase is not modelled.
\<close>

definition NumNodes :: nat where
  "NumNodes = 3"

definition quorum :: nat where
  "quorum = (NumNodes + 1 + 1) div 2"

datatype round_phase = PreparePhase | AcceptPhase | FailedPhase

datatype round_event = Promise go_int | Rejected go_int | Timeout

record round =
  phase :: round_phase
  promisedBy :: "go_int list"

definition start_round :: "Server \<Rightarrow> round" where
  "start_round server = \<lparr>phase = PreparePhase, promisedBy = [Id_server server]\<rparr>"

fun round_step :: "Server \<Rightarrow> round \<Rightarrow> round_event \<Rightarrow> round" where
  "round_step server r (Promise p) =
     (if phase r = PreparePhase \<and> p \<in> set (Peers server) \<and> p \<notin> set (promisedBy r)
      then (let ps = promisedBy r @ [p]
            in r\<lparr>promisedBy := ps,
                 phase := (if quorum \<le> length ps then AcceptPhase else PreparePhase)\<rparr>)
      else r)"
| "round_step server r (Rejected p) =
     (if phase r = PreparePhase then r\<lparr>phase := FailedPhase\<rparr> else r)"
| "round_step server r Timeout =
     (if phase r = PreparePhase then r\<lparr>phase := FailedPhase\<rparr> else r)"

definition run_round :: "Server \<Rightarrow> round_event list \<Rightarrow> round" where
  "run_round server evs = fold (\<lambda>ev r. round_step server r ev) evs (start_round server)"

text \<open>The nodes that promise in a round: the proposer and the peers whose Promise it receives.\<close>

definition promisers :: "Server \<Rightarrow> round_event list \<Rightarrow> go_int set" where
  "promisers server evs =
     insert (Id_server server) {p \<in> set (Peers server). Promise p \<in> set evs}"

section \<open>Properties\<close>

subsection \<open>Auxiliary facts\<close>

lemma checkIfTxnPossible_fst:
  "fst (checkIfTxnPossible server txn) =
     (\<not> (getLocalBalance server <s 0 \<or> Amount txn <s getLocalBalance server))"
  by (simp add: checkIfTxnPossible_def Let_def)

lemma checkIfTxnPossible_snd:
  "snd (checkIfTxnPossible server txn) =
     [LogEntry InfoLevel ''checking if transaction is possible'',
      LogEntry InfoLevel ''checking possibility......'']"
  by (simp add: checkIfTxnPossible_def Let_def)

lemma processTxnRequest_eq:
  "processTxnRequest ext server c txn =
     (let r = (if fst (checkIfTxnPossible server txn) then execPaxosRun ext server txn
               else execLocalTxn server txn)
      in (fst r, snd (checkIfTxnPossible server txn) @ snd r))"
  by (simp add: processTxnRequest_def Let_def split: prod.splits)

lemma getLocalBalance_InitServer: "getLocalBalance (InitServer id') = 100"
  by (simp add: getLocalBalance_def getBalance_def InitServer_def Let_def)


subsection \<open>Local commit\<close>

text \<open>
  C9. For every transaction, \<open>execLocalTxn\<close> appends exactly that transaction to the end
  of the Local Log and changes nothing else of the node: the blockchain, \<open>SeqNum\<close>,
  \<open>Status\<close>, \<open>AlreadyPromised\<close>, \<open>Peers\<close> and \<open>AssociatedClient\<close> are as before. Its only
  other effect is the write of the new log to the durability store.
\<close>

theorem execLocalTxn_frame:
  "fst (execLocalTxn server txn) = server\<lparr>Log := Log server @ [txn]\<rparr>
   \<and> Log (fst (execLocalTxn server txn)) = Log server @ [txn]
   \<and> Blockchain (fst (execLocalTxn server txn)) = Blockchain server
   \<and> SeqNum (fst (execLocalTxn server txn)) = SeqNum server
   \<and> Status (fst (execLocalTxn server txn)) = Status server
   \<and> AlreadyPromised (fst (execLocalTxn server txn)) = AlreadyPromised server
   \<and> Peers (fst (execLocalTxn server txn)) = Peers server
   \<and> AssociatedClient (fst (execLocalTxn server txn)) = AssociatedClient server
   \<and> snd (execLocalTxn server txn) =
       [RedisSet (REDIS_LOG_KEY (Id_server server)) (Log server @ [txn])]"
  by (simp add: execLocalTxn_def)


subsection \<open>Initial state\<close>

text \<open>
  C7. For every node id among 1, 2 and 3, the initialised node is a FOLLOWER, has
  \<open>AlreadyPromised\<close> false, an empty blockchain and an empty Local Log, and its peers
  are exactly the two other node ids.
\<close>

theorem InitServer_state:
  "id' \<in> {1, 2, 3} \<Longrightarrow>
     Status (InitServer id') = FOLLOWER
   \<and> AlreadyPromised (InitServer id') = False
   \<and> Blockchain (InitServer id') = []
   \<and> Log (InitServer id') = []
   \<and> set (Peers (InitServer id')) = {1, 2, 3} - {id'}
   \<and> length (Peers (InitServer id')) = 2"
  by (auto simp: InitServer_def)

theorem InitServer_state_witness:
  "(2 :: go_int) \<in> {1, 2, 3}
   \<and> Status (InitServer 2) = ''follower''
   \<and> AlreadyPromised (InitServer 2) = False
   \<and> Blockchain (InitServer 2) = []
   \<and> Log (InitServer 2) = []
   \<and> Peers (InitServer 2) = [1, 3]"
  using InitServer_state [of 2] by (simp add: InitServer_def FOLLOWER_def)

subsection \<open>Admission\<close>

text \<open>
  C1. For every incoming transfer, with \<open>balance = getLocalBalance\<close>: if
  \<open>balance < 0\<close> or \<open>balance > txn.Amount\<close>, \<open>checkIfTxnPossible\<close> returns false and
  \<open>processTxnRequest\<close> commits locally (the transaction is appended to the Local Log, the
  consensus round is not run: the outcome is that of \<open>execLocalTxn\<close> whatever
  \<open>execPaxosRun\<close> is); otherwise the outcome is that of the consensus round.
\<close>

theorem admission_rule:
  "fst (checkIfTxnPossible server txn) =
     (\<not> (getLocalBalance server <s 0 \<or> Amount txn <s getLocalBalance server))
   \<and> fst (processTxnRequest ext server c txn) =
       (if getLocalBalance server <s 0 \<or> Amount txn <s getLocalBalance server
        then server\<lparr>Log := Log server @ [txn]\<rparr>
        else fst (execPaxosRun ext server txn))
   \<and> snd (processTxnRequest ext server c txn) =
       snd (checkIfTxnPossible server txn) @
       (if getLocalBalance server <s 0 \<or> Amount txn <s getLocalBalance server
        then snd (execLocalTxn server txn)
        else snd (execPaxosRun ext server txn))"
  by (simp add: processTxnRequest_eq checkIfTxnPossible_fst execLocalTxn_def Let_def)

theorem admission_rule_witness:
  "\<not> fst (checkIfTxnPossible (InitServer 1) \<lparr>Sender = 1, Recvr = 2, Amount = 30\<rparr>)
   \<and> fst (processTxnRequest idle_extern (InitServer 1) (Conn 0)
            \<lparr>Sender = 1, Recvr = 2, Amount = 30\<rparr>) =
       (InitServer 1)\<lparr>Log := [\<lparr>Sender = 1, Recvr = 2, Amount = 30\<rparr>]\<rparr>
   \<and> fst (checkIfTxnPossible (InitServer 1) \<lparr>Sender = 1, Recvr = 2, Amount = 100\<rparr>)
   \<and> fst (processTxnRequest idle_extern (InitServer 1) (Conn 0)
            \<lparr>Sender = 1, Recvr = 2, Amount = 100\<rparr>) = InitServer 1"
proof -
  have l: "Log (InitServer 1) = []"
    by (simp add: InitServer_def)
  have p: "execPaxosRun idle_extern (InitServer 1) t = (InitServer 1, [])" for t
    by (simp add: idle_extern_def)
  show ?thesis
    using admission_rule [of "InitServer 1" "\<lparr>Sender = 1, Recvr = 2, Amount = 30\<rparr>"
                             idle_extern "Conn 0"]
          admission_rule [of "InitServer 1" "\<lparr>Sender = 1, Recvr = 2, Amount = 100\<rparr>"
                             idle_extern "Conn 0"]
    by (simp add: getLocalBalance_InitServer l p word_sless_alt)
qed



text \<open>
  C6. For every node whose \<open>getLocalBalance\<close> equals the requested transfer amount (an
  amount is a positive number of ledger units), \<open>processTxnRequest\<close> takes the consensus
  path, not the local one: \<open>checkIfTxnPossible\<close> returns true and the outcome is that of
  \<open>execPaxosRun\<close>.
\<close>

theorem equal_balance_consensus:
  assumes "getLocalBalance server = Amount txn" and "0 <s Amount txn"
  shows "fst (checkIfTxnPossible server txn)
    \<and> processTxnRequest ext server c txn =
        (fst (execPaxosRun ext server txn),
         snd (checkIfTxnPossible server txn) @ snd (execPaxosRun ext server txn))"
proof -
  have "\<not> Amount txn <s 0"
    using assms(2) by (simp add: word_sless_alt)
  then have "fst (checkIfTxnPossible server txn)"
    using assms(1) by (simp add: checkIfTxnPossible_fst)
  then show ?thesis by (simp add: processTxnRequest_eq Let_def)
qed

text \<open>
  The scenario of the spec: the Local Log of node 1 holds two transfers, of 50 and of 45,
  so the balance is 5; a transfer of 5 then needs the consensus round.
\<close>

theorem equal_balance_consensus_witness:
  "getLocalBalance ((InitServer 1)\<lparr>Log :=
       [\<lparr>Sender = 1, Recvr = 2, Amount = 50\<rparr>, \<lparr>Sender = 1, Recvr = 3, Amount = 45\<rparr>]\<rparr>) = 5
   \<and> fst (checkIfTxnPossible ((InitServer 1)\<lparr>Log :=
       [\<lparr>Sender = 1, Recvr = 2, Amount = 50\<rparr>, \<lparr>Sender = 1, Recvr = 3, Amount = 45\<rparr>]\<rparr>)
       \<lparr>Sender = 1, Recvr = 2, Amount = 5\<rparr>)"
proof -
  let ?s = "(InitServer 1)\<lparr>Log :=
       [\<lparr>Sender = 1, Recvr = 2, Amount = 50\<rparr>, \<lparr>Sender = 1, Recvr = 3, Amount = 45\<rparr>]\<rparr>"
  have b: "getLocalBalance ?s = 5"
    by (simp add: getLocalBalance_def getBalance_def InitServer_def Let_def)
  show ?thesis
    using b equal_balance_consensus [of ?s "\<lparr>Sender = 1, Recvr = 2, Amount = 5\<rparr>" idle_extern "Conn 0"]
    by (simp add: word_sless_alt)
qed

end
